theory Spec2Isabelle
  imports Main "HOL-Library.Word"
begin

section \<open>Data model\<close>

text \<open>
  The element types of libcudf (\<^verbatim>\<open>enum type_id\<close> of \<^verbatim>\<open>types.hpp\<close>), without the
  counter \<^verbatim>\<open>NUM_TYPE_IDS\<close>, which is not a type of any column.
\<close>

datatype type_id =
  EMPTY | INT8 | INT16 | INT32 | INT64 | FLOAT32 | FLOAT64 | BOOL8 | DATE32 | TIMESTAMP
  | CATEGORY | STRING

text \<open>
  A cell is a payload or null (\<open>None\<close>). The binding layer never looks into a payload;
  numbers, dates and the bit patterns of floating-point values are carried as \<open>IntVal\<close>.
\<close>

datatype scalar = IntVal int | StrVal string | BoolVal bool

record column =
  dtype :: type_id
  cells :: "scalar option list"

text \<open>
  The index classes of \<^verbatim>\<open>cudf.core.index\<close> and \<^verbatim>\<open>cudf.core.multiindex\<close> that the module
  tells apart with \<^verbatim>\<open>isinstance\<close>: a \<^verbatim>\<open>RangeIndex\<close> with its name, \<^verbatim>\<open>_start\<close> and
  \<^verbatim>\<open>_stop\<close>, any other single-level index with its name and column, and a
  \<^verbatim>\<open>MultiIndex\<close> with its named levels. A name is \<open>None\<close> for Python's \<^verbatim>\<open>None\<close>.
\<close>

datatype index =
  RangeIndex "string option" int int
  | GenericIndex "string option" column
  | MultiIndex "(string option \<times> column) list"

text \<open>
  A \<^verbatim>\<open>Table\<close>: \<^verbatim>\<open>_data\<close> is an ordered dictionary from column name to column, kept as
  an association list in insertion order, and \<^verbatim>\<open>_index\<close> is the index.
\<close>

record table =
  tbl_data :: "(string \<times> column) list"
  tbl_index :: index

fun is_MultiIndex :: "index \<Rightarrow> bool" where
  "is_MultiIndex (MultiIndex ls) = True"
| "is_MultiIndex _ = False"

text \<open>\<^verbatim>\<open>index.names\<close>: one name per level.\<close>

fun index_names :: "index \<Rightarrow> string option list" where
  "index_names (RangeIndex n start stop) = [n]"
| "index_names (GenericIndex n c) = [n]"
| "index_names (MultiIndex ls) = map fst ls"

text \<open>\<^verbatim>\<open>index.name\<close>, read by the module on a single-level index only.\<close>

fun index_name :: "index \<Rightarrow> string option" where
  "index_name (RangeIndex n start stop) = n"
| "index_name (GenericIndex n c) = n"
| "index_name (MultiIndex ls) = None"

text \<open>The values of a range as a column of 64-bit integers.\<close>

definition arange :: "int \<Rightarrow> int \<Rightarrow> column" where
  "arange start stop = \<lparr>dtype = INT64, cells = map (\<lambda>i. Some (IntVal i)) [start..stop - 1]\<rparr>"

text \<open>
  Modelled from the spec: the columns of an index (\<^verbatim>\<open>_index._data.columns\<close>), which are
  not in the source files. The spec's data model has index columns as columns of the table
  that are flagged as index members, one per level.
\<close>

fun level_columns :: "index \<Rightarrow> column list" where
  "level_columns (RangeIndex n start stop) = [arange start stop]"
| "level_columns (GenericIndex n c) = [c]"
| "level_columns (MultiIndex ls) = map snd ls"

text \<open>\<^verbatim>\<open>table._column_names\<close>: the keys of \<^verbatim>\<open>_data\<close> in order.\<close>

definition tbl_column_names :: "table \<Rightarrow> string list" where
  "tbl_column_names t = map fst (tbl_data t)"

text \<open>
  Modelled from the spec: \<^verbatim>\<open>Table.data_view\<close> and \<^verbatim>\<open>Table.view\<close>, which are not in the
  source files. The spec has the writer take a view over the table's columns that excludes
  the index columns when no index is persisted, and otherwise has the index columns as
  columns \<open>0..k-1\<close>, before the data columns.
\<close>

definition data_view :: "table \<Rightarrow> column list" where
  "data_view t = map snd (tbl_data t)"

definition table_view :: "table \<Rightarrow> column list" where
  "table_view t = level_columns (tbl_index t) @ map snd (tbl_data t)"

section \<open>Errors\<close>

text \<open>
  The three \<^verbatim>\<open>ValueError\<close>s the module raises, by message, the \<^verbatim>\<open>TypeError\<close> of
  \<^verbatim>\<open>str.encode(None)\<close>, the \<^verbatim>\<open>OverflowError\<close> of a Python integer that does not fit a
  \<^verbatim>\<open>size_type\<close>, the \<^verbatim>\<open>KeyError\<close> of a missing key, and the errors the spec gives the
  engine (section 7).
\<close>

datatype value_error =
  CategoryNotSupported
  | UnsupportedCompressionType
  | UnsupportedStatisticsFreq

datatype error =
  ValueError value_error
  | TypeError
  | OverflowError
  | KeyError
  | NullPointer
  | IOError
  | OutOfRange
  | UnknownColumn
  | SchemaMismatch
  | InvalidArgument

text \<open>The spec's names for the errors of the write path.\<close>

definition UnsupportedType :: "error \<Rightarrow> bool" where
  "UnsupportedType e = (e = ValueError CategoryNotSupported)"

definition UnsupportedOption :: "error \<Rightarrow> bool" where
  "UnsupportedOption e =
     (e = ValueError UnsupportedCompressionType \<or> e = ValueError UnsupportedStatisticsFreq)"

section \<open>Pandas metadata\<close>

text \<open>
  An entry of \<^verbatim>\<open>index_columns\<close> in the pandas JSON: the name of a column of the file, or
  the dictionary \<^verbatim>\<open>{"kind": "range", "name", "start", "stop", "step"}\<close>.
\<close>

datatype index_descriptor =
  ColumnName string
  | RangeDescr "string option" int int int

text \<open>
  The JSON document under the key \<^verbatim>\<open>pandas\<close>, in parsed form: \<^verbatim>\<open>json.dumps\<close> and
  \<^verbatim>\<open>json.loads\<close> belong to Python's library and are taken to be inverse to each other.
  Only \<^verbatim>\<open>index_columns\<close> is ever read by this module; it is \<open>None\<close> when the document
  has no such key.
\<close>

record pandas_metadata =
  index_columns :: "index_descriptor list option"

text \<open>
  Modelled from the spec: \<^verbatim>\<open>is_categorical_dtype\<close> of \<^verbatim>\<open>cudf.utils.dtypes\<close>, which is not
  in the source files: it holds of the columns and index levels typed \<^verbatim>\<open>CATEGORY\<close>
  (section 4.4).
\<close>

definition is_categorical_dtype :: "column \<Rightarrow> bool" where
  "is_categorical_dtype c = (dtype c = CATEGORY)"

text \<open>
  Modelled from the spec: \<^verbatim>\<open>np_to_pa_dtype\<close>, which is not in the source files, gives the
  Arrow-equivalent logical type of a column type (section 4.4); both are kept as the type
  tag.
\<close>

definition np_to_pa_dtype :: "type_id \<Rightarrow> type_id" where
  "np_to_pa_dtype ty = ty"

text \<open>The four lists \<^verbatim>\<open>generate_pandas_metadata\<close> fills.\<close>

record md_lists =
  col_names :: "string option list"
  types :: "type_id list"
  index_levels :: "index list"
  index_descriptors :: "index_descriptor list"

text \<open>The loop over \<^verbatim>\<open>table._data.items()\<close> (lines 87-95).\<close>

fun columns_loop :: "(string \<times> column) list \<Rightarrow> md_lists \<Rightarrow> error + md_lists" where
  "columns_loop [] st = Inr st"
| "columns_loop ((name, col) # rest) st =
     (if is_categorical_dtype col then Inl (ValueError CategoryNotSupported)
      else columns_loop rest
             (st\<lparr>col_names := col_names st @ [Some name],
                 types := types st @ [np_to_pa_dtype (dtype col)]\<rparr>))"

text \<open>
  Modelled from the spec: \<^verbatim>\<open>MultiIndex.get_level_values(name)\<close>, which is not in the
  source files. An index level is a column of the table known by its name (sections 3 and
  4.4): the result is the first level of that name, as a single-level index of its own,
  and a name that no level has is a \<^verbatim>\<open>KeyError\<close>.
\<close>

fun get_level_values :: "(string option \<times> column) list \<Rightarrow> string \<Rightarrow> error + index" where
  "get_level_values [] name = Inl KeyError"
| "get_level_values ((n, c) # ls) name =
     (if n = Some name then Inr (GenericIndex n c) else get_level_values ls name)"

text \<open>Lines 101-104: the index object \<^verbatim>\<open>idx\<close> of a level name.\<close>

definition level_index :: "table \<Rightarrow> string \<Rightarrow> error + index" where
  "level_index t name =
     (case tbl_index t of
        MultiIndex ls \<Rightarrow> get_level_values ls name
      | ix \<Rightarrow> Inr ix)"

fun index_dtype :: "index \<Rightarrow> type_id" where
  "index_dtype (RangeIndex n start stop) = INT64"
| "index_dtype (GenericIndex n c) = dtype c"
| "index_dtype (MultiIndex ls) = EMPTY"

text \<open>The loop over \<^verbatim>\<open>table._index.names\<close> (lines 99-127).\<close>

fun index_loop :: "table \<Rightarrow> string option list \<Rightarrow> md_lists \<Rightarrow> error + md_lists" where
  "index_loop t [] st = Inr st"
| "index_loop t (None # names) st =
     index_loop t names (st\<lparr>col_names := col_names st @ [None]\<rparr>)"
| "index_loop t (Some name # names) st =
     (case level_index t name of
        Inl e \<Rightarrow> Inl e
      | Inr (RangeIndex n start stop) \<Rightarrow>
          index_loop t names
            (st\<lparr>index_descriptors := index_descriptors st
                    @ [RangeDescr (index_name (tbl_index t)) start stop 1]\<rparr>)
      | Inr idx \<Rightarrow>
          (if index_dtype idx = CATEGORY then Inl (ValueError CategoryNotSupported)
           else index_loop t names
                  (st\<lparr>col_names := col_names st @ [Some name],
                      types := types st @ [np_to_pa_dtype (index_dtype idx)],
                      index_levels := index_levels st @ [idx],
                      index_descriptors := index_descriptors st @ [ColumnName name]\<rparr>)))"

text \<open>
  \<^verbatim>\<open>pa.pandas_compat.construct_metadata\<close> belongs to pyarrow. It writes the index
  descriptors it is given under \<^verbatim>\<open>index_columns\<close>, and none when the index policy is
  \<^verbatim>\<open>False\<close>; what it writes about the columns is not read back by this module.
\<close>

definition construct_metadata ::
  "table \<Rightarrow> string option list \<Rightarrow> index list \<Rightarrow> index_descriptor list \<Rightarrow> bool option
     \<Rightarrow> type_id list \<Rightarrow> pandas_metadata" where
  "construct_metadata t names levels descriptors preserve_index tys =
     \<lparr>index_columns = Some (if preserve_index = Some False then [] else descriptors)\<rparr>"

text \<open>
  \<^verbatim>\<open>generate_pandas_metadata(table, index)\<close>. The index policy is \<^verbatim>\<open>None\<close>, \<^verbatim>\<open>True\<close>
  or \<^verbatim>\<open>False\<close>; \<^verbatim>\<open>index is not False\<close> is \<open>index_arg \<noteq> Some False\<close>.
\<close>

definition generate_pandas_metadata :: "table \<Rightarrow> bool option \<Rightarrow> error + pandas_metadata" where
  "generate_pandas_metadata t index_arg =
     (case columns_loop (tbl_data t)
             \<lparr>col_names = [], types = [], index_levels = [], index_descriptors = []\<rparr> of
        Inl e \<Rightarrow> Inl e
      | Inr st \<Rightarrow>
          (case (if index_arg \<noteq> Some False then index_loop t (index_names (tbl_index t)) st
                 else Inr st) of
             Inl e \<Rightarrow> Inl e
           | Inr st' \<Rightarrow>
               Inr (construct_metadata t (col_names st') (index_levels st')
                      (index_descriptors st') index_arg (types st'))))"

section \<open>The engine's interface\<close>

text \<open>
  \<^verbatim>\<open>table_metadata\<close>: the column names in the order of the columns handed to the encoder,
  and the user data, whose one key here is \<^verbatim>\<open>pandas\<close>. A C++ map gives the empty string
  for a missing key, and the empty string stands for "no pandas document": both are
  \<open>None\<close>.
\<close>

record table_metadata =
  column_names :: "string list"
  user_data :: "string \<rightharpoonup> pandas_metadata"

datatype compression_type = NONE | SNAPPY

datatype statistics_freq = STATISTICS_NONE | STATISTICS_ROWGROUP | STATISTICS_PAGE

text \<open>
  \<^verbatim>\<open>write_parquet_args\<close>; its constructor leaves \<^verbatim>\<open>return_filemetadata\<close> false and
  \<^verbatim>\<open>metadata_out_file_path\<close> empty.
\<close>

record write_parquet_args =
  w_sink :: string
  w_table :: "column list"
  w_metadata :: table_metadata
  w_compression :: compression_type
  w_stats_level :: statistics_freq
  w_return_filemetadata :: bool
  w_metadata_out_file_path :: string

text \<open>\<^verbatim>\<open>read_parquet_args\<close>; the four selectors are of type \<^verbatim>\<open>size_type = int32_t\<close>.\<close>

record read_parquet_args =
  r_source :: string
  r_columns :: "string list"
  r_row_group :: "32 word"
  r_row_group_count :: "32 word"
  r_skip_rows :: "32 word"
  r_num_rows :: "32 word"
  r_strings_to_categorical :: bool
  r_use_pandas_metadata :: bool
  r_timestamp_type :: type_id

text \<open>
  A \<^verbatim>\<open>FileMetadataBlob\<close> in decoded form: the schema and the row groups, each with the
  file it lies in and its number of rows.
\<close>

record row_group =
  rg_file_path :: string
  rg_num_rows :: nat

record file_metadata =
  fm_schema :: "(string \<times> type_id) list"
  fm_row_groups :: "row_group list"

text \<open>
  A footer blob as a Python object. \<^verbatim>\<open>np.asarray\<close> of a \<^verbatim>\<open>BufferArrayFromVector\<close> is a
  two-dimensional \<^verbatim>\<open>uint8\<close> array of shape \<open>(1, n)\<close> over the \<open>n\<close> bytes of the blob (lines
  58-59 and 70 declare \<^verbatim>\<open>ndim = 2\<close> with one row). Any flat sequence of the bytes
  (\<^verbatim>\<open>bytes\<close>, a list of integers, a one-dimensional array) is the other way to hold a
  blob.
\<close>

datatype blob_py = Array2D file_metadata | Flat file_metadata

text \<open>
  A Parquet file in decoded form: the schema names, the columns, the user data, the
  sizes of its row groups and the two options it was encoded with. The byte sinks and
  sources are files by path.
\<close>

record parquet_file =
  pq_column_names :: "string list"
  pq_columns :: "column list"
  pq_user_data :: "string \<rightharpoonup> pandas_metadata"
  pq_row_groups :: "nat list"
  pq_compression :: compression_type
  pq_stats_level :: statistics_freq

type_synonym file_system = "string \<rightharpoonup> parquet_file"

text \<open>
  What the spec leaves open about the engine's writer (sections 4.2 and 7): which sink
  paths are malformed, which sinks can be opened, which encodings fail and with what
  error, and in what state a failed encoding leaves the sinks. These are parameters.
\<close>

record engine =
  path_malformed :: "string \<Rightarrow> bool"
  sink_opens :: "string \<Rightarrow> bool"
  encode_failure :: "write_parquet_args \<Rightarrow> error option"
  sink_after_failure :: "file_system \<Rightarrow> write_parquet_args \<Rightarrow> file_system"

record table_with_metadata =
  tbl :: "column list"
  metadata :: table_metadata

text \<open>The number of rows of a list of columns that share their row count.\<close>

fun num_rows :: "column list \<Rightarrow> nat" where
  "num_rows [] = 0"
| "num_rows (c # cs) = length (cells c)"

section \<open>The Parquet writer\<close>

text \<open>
  Modelled from the spec: the native writer \<^verbatim>\<open>parquet_writer\<close> (libcudf's
  \<^verbatim>\<open>write_parquet\<close>), which is not in the source files. By sections 4.2 and 7 a
  malformed path is an invalid argument and a sink that cannot be opened is an IO error,
  both with nothing written; a failure while encoding surfaces its error and leaves the
  sink in a state the spec does not give; otherwise the view is encoded under the given
  column names with the user data, and a standalone footer blob is produced in addition
  to the write exactly when asked for. Compression and statistics level do not change
  what is decoded (section 8). The spec does not say how rows are split into row groups:
  one call writes one row group.
\<close>

definition parquet_writer ::
  "engine \<Rightarrow> file_system \<Rightarrow> write_parquet_args
     \<Rightarrow> (error + file_metadata option) \<times> file_system" where
  "parquet_writer env fs args =
     (if path_malformed env (w_sink args) then (Inl InvalidArgument, fs)
      else if \<not> sink_opens env (w_sink args) then (Inl IOError, fs)
      else
        (case encode_failure env args of
           Some e \<Rightarrow> (Inl e, sink_after_failure env fs args)
         | None \<Rightarrow>
             (Inr (if w_return_filemetadata args
                   then Some \<lparr>fm_schema = zip (column_names (w_metadata args))
                                              (map dtype (w_table args)),
                              fm_row_groups = [\<lparr>rg_file_path = w_metadata_out_file_path args,
                                                rg_num_rows = num_rows (w_table args)\<rparr>]\<rparr>
                   else None),
              fs(w_sink args \<mapsto>
                 \<lparr>pq_column_names = column_names (w_metadata args),
                  pq_columns = w_table args,
                  pq_user_data = user_data (w_metadata args),
                  pq_row_groups = [num_rows (w_table args)],
                  pq_compression = w_compression args,
                  pq_stats_level = w_stats_level args\<rparr>))))"

text \<open>\<^verbatim>\<open>str.encode\<close> on each index name: a \<^verbatim>\<open>TypeError\<close> on \<^verbatim>\<open>None\<close>.\<close>

fun encode_names :: "string option list \<Rightarrow> error + string list" where
  "encode_names [] = Inr []"
| "encode_names (None # ns) = Inl TypeError"
| "encode_names (Some n # ns) =
     (case encode_names ns of Inl e \<Rightarrow> Inl e | Inr r \<Rightarrow> Inr (n # r))"

text \<open>
  Lines 231-248 of \<^verbatim>\<open>write_parquet\<close>: the view \<^verbatim>\<open>tv\<close> handed to the encoder and the
  vector \<^verbatim>\<open>column_names\<close>.
\<close>

definition write_parquet_columns ::
  "table \<Rightarrow> bool option \<Rightarrow> error + (column list \<times> string list)" where
  "write_parquet_columns t index_arg =
     (if index_arg \<noteq> Some False then
        (case tbl_index t of
           MultiIndex ls \<Rightarrow>
             (case encode_names (index_names (tbl_index t)) of
                Inl e \<Rightarrow> Inl e
              | Inr ns \<Rightarrow> Inr (table_view t, ns @ tbl_column_names t))
         | ix \<Rightarrow>
             (case index_name ix of
                Some n \<Rightarrow> Inr (table_view t, [n] @ tbl_column_names t)
              | None \<Rightarrow> Inr (data_view t, tbl_column_names t)))
      else Inr (data_view t, tbl_column_names t))"

text \<open>Lines 257-263: the compression option.\<close>

definition compression_type_of :: "string option \<Rightarrow> error + compression_type" where
  "compression_type_of compression_arg =
     (if compression_arg = None then Inr NONE
      else if compression_arg = Some ''snappy'' then Inr SNAPPY
      else Inl (ValueError UnsupportedCompressionType))"

text \<open>\<^verbatim>\<open>str.upper\<close> on the letters \<open>a\<close> to \<open>z\<close>; every other character is kept.\<close>

definition upper_char :: "char \<Rightarrow> char" where
  "upper_char c =
     (if (97::nat) \<le> of_char c \<and> of_char c \<le> (122::nat) then char_of (of_char c - (32::nat))
      else c)"

definition upper :: "string \<Rightarrow> string" where
  "upper s = map upper_char s"

text \<open>Lines 265-274: the statistics level.\<close>

definition statistics_freq_of :: "string \<Rightarrow> error + statistics_freq" where
  "statistics_freq_of statistics_arg =
     (let statistics = upper statistics_arg in
      if statistics = ''NONE'' then Inr STATISTICS_NONE
      else if statistics = ''ROWGROUP'' then Inr STATISTICS_ROWGROUP
      else if statistics = ''PAGE'' then Inr STATISTICS_PAGE
      else Inl (ValueError UnsupportedStatisticsFreq))"

text \<open>
  Lines 226-289 of \<^verbatim>\<open>write_parquet\<close>: all that happens before the native writer is
  called, in the order of the source, giving the arguments of that call.
\<close>

definition write_parquet_setup ::
  "table \<Rightarrow> string \<Rightarrow> bool option \<Rightarrow> string option \<Rightarrow> string \<Rightarrow> string option
     \<Rightarrow> error + write_parquet_args" where
  "write_parquet_setup t path index_arg compression_arg statistics_arg metadata_file_path =
     (case write_parquet_columns t index_arg of
        Inl e \<Rightarrow> Inl e
      | Inr (tv, names) \<Rightarrow>
     (case generate_pandas_metadata t index_arg of
        Inl e \<Rightarrow> Inl e
      | Inr pandas \<Rightarrow>
     (case compression_type_of compression_arg of
        Inl e \<Rightarrow> Inl e
      | Inr comp_type \<Rightarrow>
     (case statistics_freq_of statistics_arg of
        Inl e \<Rightarrow> Inl e
      | Inr stat_freq \<Rightarrow>
          Inr \<lparr>w_sink = path,
               w_table = tv,
               w_metadata = \<lparr>column_names = names, user_data = [''pandas'' \<mapsto> pandas]\<rparr>,
               w_compression = comp_type,
               w_stats_level = stat_freq,
               w_return_filemetadata = (metadata_file_path \<noteq> None),
               w_metadata_out_file_path =
                 (case metadata_file_path of None \<Rightarrow> [] | Some p \<Rightarrow> p)\<rparr>))))"

text \<open>
  \<^verbatim>\<open>write_parquet(table, path, index, compression, statistics, metadata_file_path)\<close>.
  The file system is threaded through: an error raised before the native call leaves it
  as it was, and an error of the native writer is passed on with the state it left. The
  result is \<^verbatim>\<open>np.asarray\<close> of the footer blob, or \<^verbatim>\<open>None\<close>. Lines 294-297 dereference
  the pointer the native writer returned without a test; a null pointer there is the
  error \<open>NullPointer\<close>.
\<close>

definition write_parquet ::
  "engine \<Rightarrow> file_system \<Rightarrow> table \<Rightarrow> string \<Rightarrow> bool option \<Rightarrow> string option \<Rightarrow> string
     \<Rightarrow> string option \<Rightarrow> (error + blob_py option) \<times> file_system" where
  "write_parquet env fs t path index_arg compression_arg statistics_arg metadata_file_path =
     (case write_parquet_setup t path index_arg compression_arg statistics_arg
             metadata_file_path of
        Inl e \<Rightarrow> (Inl e, fs)
      | Inr args \<Rightarrow>
          (case parquet_writer env fs args of
             (Inl e, fs') \<Rightarrow> (Inl e, fs')
           | (Inr out_metadata_c, fs') \<Rightarrow>
               (if metadata_file_path \<noteq> None then
                  (case out_metadata_c of
                     None \<Rightarrow> (Inl NullPointer, fs')
                   | Some blob \<Rightarrow> (Inr (Some (Array2D blob)), fs'))
                else (Inr None, fs'))))"

section \<open>The metadata merger\<close>

text \<open>
  Modelled from the spec: the native \<^verbatim>\<open>merge_rowgroup_metadata\<close>, which is not in the
  source files. By section 4.3 the row groups of the blobs are concatenated in the order
  of the list, every blob must have the schema of the first, and an empty list is an
  invalid argument.
\<close>

fun merge_into :: "file_metadata \<Rightarrow> file_metadata list \<Rightarrow> error + file_metadata" where
  "merge_into acc [] = Inr acc"
| "merge_into acc (b # bs) =
     (if fm_schema b = fm_schema acc
      then merge_into (acc\<lparr>fm_row_groups := fm_row_groups acc @ fm_row_groups b\<rparr>) bs
      else Inl SchemaMismatch)"

fun parquet_merge_metadata :: "file_metadata list \<Rightarrow> error + file_metadata" where
  "parquet_merge_metadata [] = Inl InvalidArgument"
| "parquet_merge_metadata (b # bs) = merge_into b bs"

text \<open>
  Line 315, \<^verbatim>\<open>blob_c = blob_py\<close>: the conversion of a Python object to
  \<^verbatim>\<open>vector[uint8_t]\<close> iterates the object and converts each item to \<^verbatim>\<open>uint8_t\<close>. The
  items of a flat sequence of bytes are its bytes. The one item of an array of shape
  \<open>(1, n)\<close> is its row, an array of \<open>n\<close> bytes, which is no integer unless \<open>n = 1\<close>: a
  \<^verbatim>\<open>TypeError\<close>, since a serialized footer is longer than one byte.
\<close>

fun vector_from_py :: "blob_py \<Rightarrow> error + file_metadata" where
  "vector_from_py (Flat b) = Inr b"
| "vector_from_py (Array2D b) = Inl TypeError"

text \<open>The loop of lines 314-316, which fills \<^verbatim>\<open>list_c\<close>.\<close>

fun fill_list_c :: "file_metadata list \<Rightarrow> blob_py list \<Rightarrow> error + file_metadata list" where
  "fill_list_c list_c [] = Inr list_c"
| "fill_list_c list_c (blob_py # rest) =
     (case vector_from_py blob_py of
        Inl e \<Rightarrow> Inl e
      | Inr blob_c \<Rightarrow> fill_list_c (list_c @ [blob_c]) rest)"

text \<open>
  \<^verbatim>\<open>merge_filemetadata(filemetadata_list)\<close>: the blobs are converted and copied into a
  vector in list order and handed to the native merge, and \<^verbatim>\<open>np.asarray\<close> of its result
  is returned.
\<close>

definition merge_filemetadata :: "blob_py list \<Rightarrow> error + blob_py" where
  "merge_filemetadata filemetadata_list =
     (case fill_list_c [] filemetadata_list of
        Inl e \<Rightarrow> Inl e
      | Inr list_c \<Rightarrow>
          (case parquet_merge_metadata list_c of
             Inl e \<Rightarrow> Inl e
           | Inr output_c \<Rightarrow> Inr (Array2D output_c)))"

section \<open>The Parquet reader\<close>

text \<open>A Python integer as a \<^verbatim>\<open>size_type\<close>: out of range it is an \<^verbatim>\<open>OverflowError\<close>.\<close>

definition to_size_type :: "int \<Rightarrow> error + 32 word" where
  "to_size_type n =
     (if - (2 ^ 31) \<le> n \<and> n < 2 ^ 31 then Inr (word_of_int n) else Inl OverflowError)"

text \<open>Lines 154-172 of \<^verbatim>\<open>read_parquet\<close>: the arguments of the native reader.\<close>

definition read_parquet_setup ::
  "string \<Rightarrow> string list option \<Rightarrow> int option \<Rightarrow> int option \<Rightarrow> int option \<Rightarrow> int option
     \<Rightarrow> bool \<Rightarrow> bool \<Rightarrow> error + read_parquet_args" where
  "read_parquet_setup filepath columns_arg row_group_arg row_group_count_arg skip_rows_arg
       num_rows_arg strings_to_categorical_arg use_pandas_metadata_arg =
     (case to_size_type (case skip_rows_arg of Some n \<Rightarrow> n | None \<Rightarrow> 0) of
        Inl e \<Rightarrow> Inl e
      | Inr skip \<Rightarrow>
     (case to_size_type (case num_rows_arg of Some n \<Rightarrow> n | None \<Rightarrow> - 1) of
        Inl e \<Rightarrow> Inl e
      | Inr num \<Rightarrow>
     (case to_size_type (case row_group_arg of Some n \<Rightarrow> n | None \<Rightarrow> - 1) of
        Inl e \<Rightarrow> Inl e
      | Inr rg \<Rightarrow>
     (case to_size_type (case row_group_count_arg of Some n \<Rightarrow> n | None \<Rightarrow> - 1) of
        Inl e \<Rightarrow> Inl e
      | Inr rg_count \<Rightarrow>
          Inr \<lparr>r_source = filepath,
               r_columns = (case columns_arg of None \<Rightarrow> [] | Some cs \<Rightarrow> cs),
               r_row_group = rg,
               r_row_group_count = rg_count,
               r_skip_rows = skip,
               r_num_rows = num,
               r_strings_to_categorical = strings_to_categorical_arg,
               r_use_pandas_metadata = use_pandas_metadata_arg,
               r_timestamp_type = EMPTY\<rparr>))))"

text \<open>
  Modelled from the spec: the native reader \<^verbatim>\<open>parquet_reader\<close> (libcudf's
  \<^verbatim>\<open>read_parquet\<close>), which is not in the source files. By sections 4.1 and 8: a source
  that cannot be opened is an IO error; an empty column selection keeps all the columns
  in their order in the file, a selection gives its columns in the order asked for, and a
  name that is not in the file is an unknown column; both row-group selectors at \<open>-1\<close>
  mean all row groups, otherwise a contiguous run is selected and a run beyond the file
  is out of range; \<^verbatim>\<open>skip_rows = k\<close> and \<^verbatim>\<open>num_rows = n\<close> give the rows \<open>[k, k + n)\<close> of
  that, \<open>n = -1\<close> meaning to the end, and a window beyond the rows is out of range;
  \<^verbatim>\<open>strings_to_categorical\<close> decodes \<^verbatim>\<open>STRING\<close> columns as \<^verbatim>\<open>CATEGORY\<close>; the columns
  keep their names in the file and the user data is surfaced unchanged. The index that
  \<^verbatim>\<open>use_pandas_metadata\<close> asks for is surfaced through that metadata only, so the flag
  does not change the decoded columns; \<^verbatim>\<open>timestamp_type\<close> is always \<^verbatim>\<open>EMPTY\<close> here, which
  asks for no conversion.
\<close>

fun select_columns ::
  "(string \<times> column) list \<Rightarrow> string list \<Rightarrow> error + (string \<times> column) list" where
  "select_columns file_cols [] = Inr []"
| "select_columns file_cols (n # ns) =
     (case map_of file_cols n of
        None \<Rightarrow> Inl UnknownColumn
      | Some c \<Rightarrow>
          (case select_columns file_cols ns of
             Inl e \<Rightarrow> Inl e
           | Inr r \<Rightarrow> Inr ((n, c) # r)))"

definition row_group_window :: "nat list \<Rightarrow> int \<Rightarrow> int \<Rightarrow> error + (nat \<times> nat) option" where
  "row_group_window sizes rg rg_count =
     (if rg = - 1 \<and> rg_count = - 1 then Inr None
      else if rg < 0 \<or> rg_count < 0 \<or> int (length sizes) < rg + rg_count then Inl OutOfRange
      else Inr (Some (sum_list (take (nat rg) sizes),
                      sum_list (take (nat rg_count) (drop (nat rg) sizes)))))"

definition row_window :: "nat \<Rightarrow> int \<Rightarrow> int \<Rightarrow> error + (nat \<times> nat option)" where
  "row_window n_rows skip num =
     (if skip < 0 \<or> int n_rows < skip then Inl OutOfRange
      else if num = - 1 then Inr (nat skip, None)
      else if num < 0 \<or> int n_rows < skip + num then Inl OutOfRange
      else Inr (nat skip, Some (nat num)))"

definition rows_of_groups :: "(nat \<times> nat) option \<Rightarrow> 'a list \<Rightarrow> 'a list" where
  "rows_of_groups w xs = (case w of None \<Rightarrow> xs | Some (lo, n) \<Rightarrow> take n (drop lo xs))"

definition rows_of_window :: "nat \<times> nat option \<Rightarrow> 'a list \<Rightarrow> 'a list" where
  "rows_of_window w xs =
     (case w of (k, None) \<Rightarrow> drop k xs | (k, Some n) \<Rightarrow> take n (drop k xs))"

definition decode_column ::
  "bool \<Rightarrow> (nat \<times> nat) option \<Rightarrow> nat \<times> nat option \<Rightarrow> column \<Rightarrow> column" where
  "decode_column to_cat gw rw c =
     \<lparr>dtype = (if to_cat \<and> dtype c = STRING then CATEGORY else dtype c),
      cells = rows_of_window rw (rows_of_groups gw (cells c))\<rparr>"

definition parquet_reader :: "file_system \<Rightarrow> read_parquet_args \<Rightarrow> error + table_with_metadata" where
  "parquet_reader fs args =
     (case fs (r_source args) of
        None \<Rightarrow> Inl IOError
      | Some f \<Rightarrow>
     (case (if r_columns args = [] then Inr (zip (pq_column_names f) (pq_columns f))
            else select_columns (zip (pq_column_names f) (pq_columns f)) (r_columns args)) of
        Inl e \<Rightarrow> Inl e
      | Inr selected \<Rightarrow>
     (case row_group_window (pq_row_groups f) (sint (r_row_group args))
             (sint (r_row_group_count args)) of
        Inl e \<Rightarrow> Inl e
      | Inr gw \<Rightarrow>
     (case row_window (case gw of None \<Rightarrow> sum_list (pq_row_groups f) | Some (lo, n) \<Rightarrow> n)
             (sint (r_skip_rows args)) (sint (r_num_rows args)) of
        Inl e \<Rightarrow> Inl e
      | Inr rw \<Rightarrow>
          Inr \<lparr>tbl = map (decode_column (r_strings_to_categorical args) gw rw) (map snd selected),
               metadata = \<lparr>column_names = map fst selected, user_data = pq_user_data f\<rparr>\<rparr>))))"

text \<open>A Python dictionary as an association list: \<^verbatim>\<open>d[k] = v\<close> and \<^verbatim>\<open>dict(items)\<close>.\<close>

fun dict_set :: "('k \<times> 'v) list \<Rightarrow> 'k \<Rightarrow> 'v \<Rightarrow> ('k \<times> 'v) list" where
  "dict_set [] k v = [(k, v)]"
| "dict_set ((k', v') # d) k v =
     (if k' = k then (k, v) # d else (k', v') # dict_set d k v)"

definition dict_of :: "('k \<times> 'v) list \<Rightarrow> ('k \<times> 'v) list" where
  "dict_of items = foldl (\<lambda>d (k, v). dict_set d k v) [] items"

text \<open>
  Modelled from the spec: \<^verbatim>\<open>Table.from_unique_ptr\<close> and \<^verbatim>\<open>DataFrame._from_table\<close>,
  which are not in the source files. The decoded columns become an ordered mapping from
  the given names (section 3), and the frame has the default index, an unnamed range over
  its rows.
\<close>

definition from_table :: "string list \<Rightarrow> column list \<Rightarrow> table" where
  "from_table names cols =
     \<lparr>tbl_data = dict_of (zip names cols), tbl_index = RangeIndex None 0 (int (num_rows cols))\<rparr>"

text \<open>
  Modelled from the spec: \<^verbatim>\<open>DataFrame.set_index\<close>, which is not in the source files. By
  section 4.1 the named column is removed from the data columns and promoted to index.
\<close>

definition set_index :: "table \<Rightarrow> string \<Rightarrow> error + table" where
  "set_index df name =
     (case map_of (tbl_data df) name of
        None \<Rightarrow> Inl KeyError
      | Some c \<Rightarrow>
          Inr \<lparr>tbl_data = filter (\<lambda>kv. fst kv \<noteq> name) (tbl_data df),
               tbl_index = GenericIndex (Some name) c\<rparr>)"

text \<open>The assignment \<^verbatim>\<open>df.index.name = n\<close> on a single-level index.\<close>

fun rename_index :: "index \<Rightarrow> string option \<Rightarrow> index" where
  "rename_index (RangeIndex n start stop) n' = RangeIndex n' start stop"
| "rename_index (GenericIndex n c) n' = GenericIndex n' c"
| "rename_index (MultiIndex ls) n' = MultiIndex ls"

text \<open>
  A \<^verbatim>\<open>str\<close> is kept as its UTF-8 bytes. \<open>code_points\<close> gives back its characters as
  code points, and \<open>None\<close> for bytes that are not the UTF-8 form of any text (a
  continuation byte out of place, an overlong form, a surrogate, a value beyond
  \<open>0x10FFFF\<close>).
\<close>

definition continuation :: "nat \<Rightarrow> bool" where
  "continuation b = (128 \<le> b \<and> b < 192)"

function code_points :: "nat list \<Rightarrow> nat list option" where
  "code_points [] = Some []"
| "code_points (b # bs) =
     (if b < 128 then map_option ((#) b) (code_points bs)
      else if 194 \<le> b \<and> b < 224 then
        (if 1 \<le> length bs \<and> continuation (bs ! 0)
         then map_option ((#) ((b - 192) * 64 + (bs ! 0 - 128))) (code_points (drop 1 bs))
         else None)
      else if 224 \<le> b \<and> b < 240 then
        (if 2 \<le> length bs \<and> continuation (bs ! 0) \<and> continuation (bs ! 1)
            \<and> 2048 \<le> (b - 224) * 4096 + (bs ! 0 - 128) * 64 + (bs ! 1 - 128)
            \<and> \<not> (55296 \<le> (b - 224) * 4096 + (bs ! 0 - 128) * 64 + (bs ! 1 - 128)
                 \<and> (b - 224) * 4096 + (bs ! 0 - 128) * 64 + (bs ! 1 - 128) \<le> 57343)
         then map_option ((#) ((b - 224) * 4096 + (bs ! 0 - 128) * 64 + (bs ! 1 - 128)))
                (code_points (drop 2 bs))
         else None)
      else if 240 \<le> b \<and> b < 245 then
        (if 3 \<le> length bs \<and> continuation (bs ! 0) \<and> continuation (bs ! 1)
            \<and> continuation (bs ! 2)
            \<and> 65536 \<le> (b - 240) * 262144 + (bs ! 0 - 128) * 4096 + (bs ! 1 - 128) * 64
                          + (bs ! 2 - 128)
            \<and> (b - 240) * 262144 + (bs ! 0 - 128) * 4096 + (bs ! 1 - 128) * 64
                  + (bs ! 2 - 128) \<le> 1114111
         then map_option
                ((#) ((b - 240) * 262144 + (bs ! 0 - 128) * 4096 + (bs ! 1 - 128) * 64
                       + (bs ! 2 - 128)))
                (code_points (drop 3 bs))
         else None)
      else None)"
  by pat_completeness auto
termination
  by (relation "measure length") auto

text \<open>
  pyarrow's \<^verbatim>\<open>_backwards_compatible_index_name(raw_name, logical_name)\<close>: a name that
  matches the regular expression \<^verbatim>\<open>^__index_level_\d+__$\<close> was generated for an unnamed
  index and is given back as \<^verbatim>\<open>None\<close>. The match is on the characters of the name:
  \<^verbatim>\<open>\d\<close> is any decimal digit of the Unicode database of the Python in use, and \<^verbatim>\<open>$\<close>
  also accepts one final newline. Which code points are decimal digits differs between
  the versions of that database; it is the parameter \<open>decimal\<close>.
\<close>

definition is_generated_index_name :: "(nat \<Rightarrow> bool) \<Rightarrow> string \<Rightarrow> bool" where
  "is_generated_index_name decimal name =
     (case code_points (map of_char name) of
        None \<Rightarrow> False
      | Some cs \<Rightarrow>
          take 14 cs = map of_char ''__index_level_''
          \<and> takeWhile decimal (drop 14 cs) \<noteq> []
          \<and> (dropWhile decimal (drop 14 cs) = [95, 95]
             \<or> dropWhile decimal (drop 14 cs) = [95, 95, 10]))"

definition backwards_compatible_index_name ::
  "(nat \<Rightarrow> bool) \<Rightarrow> string option \<Rightarrow> string option \<Rightarrow> string option" where
  "backwards_compatible_index_name decimal raw_name logical_name =
     (if raw_name = logical_name
         \<and> (case raw_name of None \<Rightarrow> False | Some n \<Rightarrow> is_generated_index_name decimal n)
      then None else logical_name)"

text \<open>
  Lines 182-189: the first entry of \<^verbatim>\<open>index_columns\<close>, or the empty string that
  \<^verbatim>\<open>index_col\<close> starts as.
\<close>

definition find_index_col :: "(string \<rightharpoonup> pandas_metadata) \<Rightarrow> index_descriptor" where
  "find_index_col ud =
     (case ud ''pandas'' of
        None \<Rightarrow> ColumnName []
      | Some meta \<Rightarrow>
          (case index_columns meta of
             None \<Rightarrow> ColumnName []
           | Some [] \<Rightarrow> ColumnName []
           | Some (d # ds) \<Rightarrow> d))"

text \<open>
  \<^verbatim>\<open>read_parquet(filepath_or_buffer, columns, row_group, row_group_count, skip_rows,
  num_rows, strings_to_categorical, use_pandas_metadata)\<close>. The test
  \<^verbatim>\<open>index_col is not '' and isinstance(index_col, str)\<close> holds for a non-empty column
  name and for nothing else. The first argument is the set of decimal digits that
  pyarrow's name function goes by.
\<close>

definition read_parquet ::
  "(nat \<Rightarrow> bool) \<Rightarrow> file_system \<Rightarrow> string \<Rightarrow> string list option \<Rightarrow> int option \<Rightarrow> int option
     \<Rightarrow> int option \<Rightarrow> int option \<Rightarrow> bool \<Rightarrow> bool \<Rightarrow> error + table" where
  "read_parquet decimal fs filepath columns_arg row_group_arg row_group_count_arg skip_rows_arg
       num_rows_arg strings_to_categorical_arg use_pandas_metadata_arg =
     (case read_parquet_setup filepath columns_arg row_group_arg row_group_count_arg
             skip_rows_arg num_rows_arg strings_to_categorical_arg use_pandas_metadata_arg of
        Inl e \<Rightarrow> Inl e
      | Inr args \<Rightarrow>
     (case parquet_reader fs args of
        Inl e \<Rightarrow> Inl e
      | Inr c_out_table \<Rightarrow>
          (let names = column_names (metadata c_out_table);
               index_col = find_index_col (user_data (metadata c_out_table));
               df = from_table names (tbl c_out_table)
           in case index_col of
                ColumnName n \<Rightarrow>
                  (if n \<noteq> [] then
                     (if n \<in> set names then
                        (case set_index df n of
                           Inl e \<Rightarrow> Inl e
                         | Inr df' \<Rightarrow>
                             Inr (df'\<lparr>tbl_index :=
                                    rename_index (tbl_index df')
                                      (backwards_compatible_index_name decimal
                                         (index_name (tbl_index df'))
                                         (index_name (tbl_index df')))\<rparr>))
                      else if use_pandas_metadata_arg
                        then Inr (df\<lparr>tbl_index := rename_index (tbl_index df) (Some n)\<rparr>)
                        else Inr df)
                   else Inr df)
              | RangeDescr nm start stop step \<Rightarrow> Inr df)))"

section \<open>Observations and examples\<close>




text \<open>Columns, tables and files for the concrete instances below.\<close>

definition col_a :: column where
  "col_a = \<lparr>dtype = INT32, cells = [Some (IntVal 1), None]\<rparr>"

definition col_k :: column where
  "col_k = \<lparr>dtype = STRING, cells = [Some (StrVal ''x''), Some (StrVal ''y'')]\<rparr>"

definition col_cat :: column where
  "col_cat = \<lparr>dtype = CATEGORY, cells = [Some (IntVal 0), Some (IntVal 1)]\<rparr>"

definition table_named :: table where
  "table_named = \<lparr>tbl_data = [(''a'', col_a)], tbl_index = GenericIndex (Some ''k'') col_k\<rparr>"

definition table_unnamed :: table where
  "table_unnamed = \<lparr>tbl_data = [(''a'', col_a)], tbl_index = GenericIndex None col_k\<rparr>"

definition table_cat :: table where
  "table_cat = \<lparr>tbl_data = [(''c'', col_cat)], tbl_index = RangeIndex None 0 2\<rparr>"

definition table_multi :: table where
  "table_multi =
     \<lparr>tbl_data = [(''a'', col_a)],
      tbl_index = MultiIndex [(Some ''k1'', col_k), (Some ''k2'', col_a)]\<rparr>"

definition table_multi_unnamed :: table where
  "table_multi_unnamed =
     \<lparr>tbl_data = [(''c'', col_cat)],
      tbl_index = MultiIndex [(None, col_k), (None, col_a)]\<rparr>"

definition file_range :: parquet_file where
  "file_range =
     \<lparr>pq_column_names = [''a''], pq_columns = [col_a],
      pq_user_data =
        [''pandas'' \<mapsto> \<lparr>index_columns = Some [RangeDescr (Some ''idx'') 0 2 1]\<rparr>],
      pq_row_groups = [2], pq_compression = NONE, pq_stats_level = STATISTICS_ROWGROUP\<rparr>"

definition file_named :: parquet_file where
  "file_named =
     \<lparr>pq_column_names = [''k'', ''a''], pq_columns = [col_k, col_a],
      pq_user_data = [''pandas'' \<mapsto> \<lparr>index_columns = Some [ColumnName ''k'']\<rparr>],
      pq_row_groups = [2], pq_compression = NONE, pq_stats_level = STATISTICS_ROWGROUP\<rparr>"

definition args_named :: "string option \<Rightarrow> write_parquet_args" where
  "args_named footer =
     \<lparr>w_sink = ''out.parquet'', w_table = [col_k, col_a],
      w_metadata =
        \<lparr>column_names = [''k'', ''a''],
         user_data = [''pandas'' \<mapsto> \<lparr>index_columns = Some [ColumnName ''k'']\<rparr>]\<rparr>,
      w_compression = NONE, w_stats_level = STATISTICS_ROWGROUP,
      w_return_filemetadata = (footer \<noteq> None),
      w_metadata_out_file_path = (case footer of None \<Rightarrow> [] | Some p \<Rightarrow> p)\<rparr>"

definition args_unset :: read_parquet_args where
  "args_unset =
     \<lparr>r_source = ''out.parquet'', r_columns = [], r_row_group = - 1,
      r_row_group_count = - 1, r_skip_rows = 0, r_num_rows = - 1,
      r_strings_to_categorical = False, r_use_pandas_metadata = True,
      r_timestamp_type = EMPTY\<rparr>"

definition blob_named :: file_metadata where
  "blob_named =
     \<lparr>fm_schema = [(''k'', STRING), (''a'', INT32)],
      fm_row_groups = [\<lparr>rg_file_path = ''part0.parquet'', rg_num_rows = 2\<rparr>]\<rparr>"

definition blob_other :: file_metadata where
  "blob_other =
     \<lparr>fm_schema = [(''k'', STRING), (''a'', INT32)],
      fm_row_groups = [\<lparr>rg_file_path = ''part1.parquet'', rg_num_rows = 5\<rparr>]\<rparr>"

text \<open>
  For the instances: the decimal digits (category \<^verbatim>\<open>Nd\<close>) of Unicode 14.0, the database
  of Python 3.11, as ranges of code points; and an engine whose sinks open and whose
  encodings succeed.
\<close>

definition unicode_decimal :: "nat \<Rightarrow> bool" where
  "unicode_decimal cp =
     list_ex (\<lambda>r. fst r \<le> cp \<and> cp \<le> snd r)
       [(48, 57), (1632, 1641), (1776, 1785), (1984, 1993), (2406, 2415), (2534, 2543),
        (2662, 2671), (2790, 2799), (2918, 2927), (3046, 3055), (3174, 3183), (3302, 3311),
        (3430, 3439), (3558, 3567), (3664, 3673), (3792, 3801), (3872, 3881), (4160, 4169),
        (4240, 4249), (6112, 6121), (6160, 6169), (6470, 6479), (6608, 6617), (6784, 6793),
        (6800, 6809), (6992, 7001), (7088, 7097), (7232, 7241), (7248, 7257),
        (42528, 42537), (43216, 43225), (43264, 43273), (43472, 43481), (43504, 43513),
        (43600, 43609), (44016, 44025), (65296, 65305), (66720, 66729), (68912, 68921),
        (69734, 69743), (69872, 69881), (69942, 69951), (70096, 70105), (70384, 70393),
        (70736, 70745), (70864, 70873), (71248, 71257), (71360, 71369), (71472, 71481),
        (71904, 71913), (72016, 72025), (72784, 72793), (73040, 73049), (73120, 73129),
        (92768, 92777), (92864, 92873), (93008, 93017), (120782, 120831), (123200, 123209),
        (123632, 123641), (125264, 125273), (130032, 130041)]"

definition engine_ok :: engine where
  "engine_ok =
     \<lparr>path_malformed = (\<lambda>p. False), sink_opens = (\<lambda>p. True),
      encode_failure = (\<lambda>a. None), sink_after_failure = (\<lambda>fs a. fs)\<rparr>"



section \<open>Auxiliary facts\<close>

subsection \<open>The write path\<close>

lemma encode_names_Inr: "encode_names ns = Inr r \<Longrightarrow> map Some r = ns"
  by (induction ns arbitrary: r rule: encode_names.induct) (auto split: sum.splits)

lemma length_level_columns: "length (level_columns ix) = length (index_names ix)"
  by (cases ix) simp_all

lemma write_parquet_setup_columns:
  assumes "write_parquet_setup t path index_arg c s m = Inr args"
  shows "write_parquet_columns t index_arg = Inr (w_table args, column_names (w_metadata args))"
  using assms by (auto simp: write_parquet_setup_def split: sum.splits prod.splits)

lemma write_parquet_columns_embedded:
  assumes "index_arg \<noteq> Some False"
      and "is_MultiIndex (tbl_index t) \<or> index_name (tbl_index t) \<noteq> None"
      and "write_parquet_columns t index_arg = Inr (tv, names)"
  shows "tv = level_columns (tbl_index t) @ data_view t
       \<and> map Some names = index_names (tbl_index t) @ map Some (tbl_column_names t)"
  using assms
  by (cases "tbl_index t")
     (auto simp: write_parquet_columns_def table_view_def data_view_def
           dest: encode_names_Inr split: sum.splits option.splits)



lemma write_parquet_setup_flag:
  "write_parquet_setup t path index_arg c s m = Inr args \<Longrightarrow>
     w_return_filemetadata args = (m \<noteq> None) \<and> w_sink args = path"
  by (auto simp: write_parquet_setup_def split: sum.splits prod.splits)


text \<open>
  A call that gets through its checks returns what the native writer returns, the blob
  as an array.
\<close>

lemma write_parquet_native:
  assumes "write_parquet_setup t path index_arg c s m = Inr args"
  shows "write_parquet env fs t path index_arg c s m =
           (case parquet_writer env fs args of
              (Inl e, fs') \<Rightarrow> (Inl e, fs')
            | (Inr out, fs') \<Rightarrow> (Inr (map_option Array2D out), fs'))"
  using assms write_parquet_setup_flag [OF assms]
  by (cases m) (auto simp: write_parquet_def parquet_writer_def split: option.splits)

lemma Some_eq_map_option:
  "(Some y = map_option g xo) = (\<exists>z. xo = Some z \<and> g z = y)"
  by (cases xo) auto

lemma write_parquet_setup_footer_path:
  "write_parquet_setup t path index_arg c s m = Inr args \<Longrightarrow> m = Some p \<Longrightarrow>
     w_metadata_out_file_path args = p"
  by (auto simp: write_parquet_setup_def split: sum.splits prod.splits)


lemma write_parquet_setup_failed:
  "write_parquet_setup t path index_arg c s m = Inl e \<Longrightarrow>
     write_parquet env fs t path index_arg c s m = (Inl e, fs)"
  by (simp add: write_parquet_def)



subsection \<open>The pandas metadata\<close>

lemma columns_loop_ok:
  "list_all (\<lambda>kv. dtype (snd kv) \<noteq> CATEGORY) cols \<Longrightarrow>
     \<exists>st'. columns_loop cols st = Inr st' \<and> index_descriptors st' = index_descriptors st"
  by (induction cols st rule: columns_loop.induct) (simp_all add: is_categorical_dtype_def)

lemma columns_loop_category:
  "\<not> list_all (\<lambda>kv. dtype (snd kv) \<noteq> CATEGORY) cols \<Longrightarrow>
     columns_loop cols st = Inl (ValueError CategoryNotSupported)"
  by (induction cols st rule: columns_loop.induct) (auto simp: is_categorical_dtype_def)



lemma get_level_values_member:
  "Some n \<in> fst ` set ls \<Longrightarrow>
     \<exists>c. get_level_values ls n = Inr (GenericIndex (Some n) c) \<and> (Some n, c) \<in> set ls"
proof (induction ls)
  case Nil
  then show ?case by simp
next
  case (Cons l ls)
  show ?case
  proof (cases "fst l = Some n")
    case True
    then show ?thesis by (cases l) auto
  next
    case False
    with Cons.prems have "Some n \<in> fst ` set ls" by auto
    with Cons.IH False show ?thesis by (cases l) auto
  qed
qed

lemma get_level_values_distinct:
  "distinct (map fst ls) \<Longrightarrow> (Some n, c) \<in> set ls \<Longrightarrow>
     get_level_values ls n = Inr (GenericIndex (Some n) c)"
proof (induction ls)
  case Nil
  then show ?case by simp
next
  case (Cons l ls)
  show ?case
  proof (cases "l = (Some n, c)")
    case True
    then show ?thesis by simp
  next
    case False
    with Cons.prems have mem: "(Some n, c) \<in> set ls" by simp
    then have a: "Some n \<in> fst ` set ls" by force
    have b: "fst l \<notin> fst ` set ls"
      using Cons.prems(1) by simp
    from a b have "fst l \<noteq> Some n" by metis
    moreover have "get_level_values ls n = Inr (GenericIndex (Some n) c)"
      using Cons.IH Cons.prems(1) mem by simp
    ultimately show ?thesis by (cases l) simp
  qed
qed

lemma index_loop_category:
  assumes "Some n \<in> set ns"
      and "level_index t n = Inr (GenericIndex x c)"
      and "dtype c = CATEGORY"
      and "\<forall>k. Some k \<in> set ns \<longrightarrow> (\<exists>idx. level_index t k = Inr idx)"
  shows "index_loop t ns st = Inl (ValueError CategoryNotSupported)"
  using assms(1,4)
proof (induction ns arbitrary: st)
  case Nil
  then show ?case by simp
next
  case (Cons nm ns)
  show ?case
  proof (cases nm)
    case None
    with Cons show ?thesis by simp
  next
    case (Some name)
    show ?thesis
    proof (cases "name = n")
      case True
      with Some assms(2,3) show ?thesis by simp
    next
      case False
      with Some Cons.prems have rest: "Some n \<in> set ns"
        and ok: "\<forall>k. Some k \<in> set ns \<longrightarrow> (\<exists>idx. level_index t k = Inr idx)"
        by simp_all
      have step: "index_loop t ns st' = Inl (ValueError CategoryNotSupported)" for st'
        using Cons.IH [OF rest ok] .
      obtain idx where idx: "level_index t name = Inr idx"
        using Cons.prems(2) Some by auto
      show ?thesis
        using Some idx step by (cases idx) simp_all
    qed
  qed
qed




lemma generate_pandas_metadata_category:
  assumes cols: "write_parquet_columns t index_arg = Inr (tv, names)"
      and cat: "c \<in> set tv" "dtype c = CATEGORY"
      and dist: "distinct names"
  shows "generate_pandas_metadata t index_arg = Inl (ValueError CategoryNotSupported)"
proof (cases "list_all (\<lambda>kv. dtype (snd kv) \<noteq> CATEGORY) (tbl_data t)")
  case False
  then show ?thesis
    by (simp add: generate_pandas_metadata_def columns_loop_category)
next
  case True
  let ?st0 = "\<lparr>col_names = [], types = [], index_levels = [], index_descriptors = []\<rparr>"
  obtain st where st: "columns_loop (tbl_data t) ?st0 = Inr st"
    using columns_loop_ok [OF True, of ?st0] by blast
  have nodata: "c \<notin> set (data_view t)"
    using True cat(2) by (auto simp: list_all_iff data_view_def)
  have emb: "index_arg \<noteq> Some False"
    using cols cat(1) nodata by (auto simp: write_parquet_columns_def)
  have loop: "index_loop t (index_names (tbl_index t)) st = Inl (ValueError CategoryNotSupported)"
  proof (cases "tbl_index t")
    case (RangeIndex nm start stop)
    with cols emb cat nodata show ?thesis
      by (auto simp: write_parquet_columns_def table_view_def data_view_def arange_def
            split: option.splits)
  next
    case (GenericIndex nm col)
    with cols emb cat nodata obtain n where "nm = Some n" and "col = c"
      by (auto simp: write_parquet_columns_def table_view_def data_view_def
            split: option.splits)
    with GenericIndex cat(2) show ?thesis
      by (simp add: level_index_def)
  next
    case (MultiIndex ls)
    from cols emb MultiIndex obtain ens where enc: "encode_names (map fst ls) = Inr ens"
        and tv: "tv = map snd ls @ data_view t" and names: "names = ens @ tbl_column_names t"
      by (auto simp: write_parquet_columns_def table_view_def data_view_def split: sum.splits)
    have ens: "map Some ens = map fst ls"
      using enc by (rule encode_names_Inr)
    have "distinct (map Some ens)"
      using dist names by (simp add: distinct_map)
    then have dls: "distinct (map fst ls)"
      using ens by simp
    from cat(1) nodata tv obtain nm where mem: "(nm, c) \<in> set ls"
      by auto
    then have "nm \<in> set (map Some ens)"
      unfolding ens by force
    then obtain n where nm: "nm = Some n"
      by auto
    have lvl: "level_index t n = Inr (GenericIndex (Some n) c)"
      using get_level_values_distinct [OF dls] mem nm MultiIndex by (simp add: level_index_def)
    have ok: "\<forall>k. Some k \<in> set (index_names (tbl_index t))
                \<longrightarrow> (\<exists>idx. level_index t k = Inr idx)"
    proof (intro allI impI)
      fix k assume "Some k \<in> set (index_names (tbl_index t))"
      then have "Some k \<in> fst ` set ls" using MultiIndex by simp
      then show "\<exists>idx. level_index t k = Inr idx"
        using get_level_values_member [of k ls] MultiIndex by (auto simp: level_index_def)
    qed
    have "Some n \<in> set (index_names (tbl_index t))"
      using mem nm MultiIndex by force
    then show ?thesis
      using index_loop_category [OF _ lvl cat(2) ok] by blast
  qed
  show ?thesis
    using st emb loop by (simp add: generate_pandas_metadata_def)
qed


subsection \<open>The merger\<close>

lemma merge_into_same:
  "list_all (\<lambda>b. fm_schema b = fm_schema acc) bs \<Longrightarrow>
     merge_into acc bs =
       Inr (acc\<lparr>fm_row_groups := fm_row_groups acc @ concat (map fm_row_groups bs)\<rparr>)"
  by (induction bs arbitrary: acc) simp_all

lemma merge_into_mismatch:
  "\<not> list_all (\<lambda>b. fm_schema b = fm_schema acc) bs \<Longrightarrow> merge_into acc bs = Inl SchemaMismatch"
  by (induction bs arbitrary: acc) auto

lemma fill_list_c_flat: "fill_list_c list_c (map Flat bs) = Inr (list_c @ bs)"
  by (induction bs arbitrary: list_c) simp_all

lemma fill_list_c_array:
  "Array2D b \<in> set blobs \<Longrightarrow> fill_list_c list_c blobs = Inl TypeError"
proof (induction blobs arbitrary: list_c)
  case Nil
  then show ?case by simp
next
  case (Cons x xs)
  show ?case
  proof (cases x)
    case (Array2D y)
    then show ?thesis by simp
  next
    case (Flat y)
    with Cons.prems have "Array2D b \<in> set xs" by auto
    then show ?thesis using Flat Cons.IH by simp
  qed
qed

text \<open>
  On flat byte sequences \<^verbatim>\<open>merge_filemetadata\<close> does what the native merge does: it fails
  on the empty list with \<open>InvalidArgument\<close>; on a non-empty list whose blobs all have the
  schema of the first it returns that schema with the row groups of the blobs
  concatenated in list order; and on any other non-empty list it fails with
  \<open>SchemaMismatch\<close>. A list with an array of shape \<open>(1, n)\<close> in it is a \<^verbatim>\<open>TypeError\<close>.
\<close>

lemma merge_filemetadata_flat:
  "merge_filemetadata [] = Inl InvalidArgument
   \<and> merge_filemetadata (map Flat (b # bs)) =
       (if list_all (\<lambda>b'. fm_schema b' = fm_schema b) bs
        then Inr (Array2D \<lparr>fm_schema = fm_schema b,
                            fm_row_groups = concat (map fm_row_groups (b # bs))\<rparr>)
        else Inl SchemaMismatch)"
  by (simp add: merge_filemetadata_def fill_list_c_flat merge_into_same merge_into_mismatch)

lemma merge_filemetadata_array:
  "Array2D b \<in> set blobs \<Longrightarrow> merge_filemetadata blobs = Inl TypeError"
  by (simp add: merge_filemetadata_def fill_list_c_array)

subsection \<open>The read path\<close>

lemma to_size_type_Inr: "to_size_type n = Inr w \<Longrightarrow> sint w = n"
  by (auto simp: to_size_type_def signed_take_bit_int_eq_self sint_sbintrunc' split: if_splits)

lemma read_parquet_setup_unset:
  "read_parquet_setup filepath None None None None None s2c upm =
     Inr \<lparr>r_source = filepath, r_columns = [], r_row_group = - 1, r_row_group_count = - 1,
          r_skip_rows = 0, r_num_rows = - 1, r_strings_to_categorical = s2c,
          r_use_pandas_metadata = upm, r_timestamp_type = EMPTY\<rparr>"
  by (simp add: read_parquet_setup_def to_size_type_def)

lemma keys_dict_set: "fst ` set (dict_set d k v) = insert k (fst ` set d)"
  by (induction d k v rule: dict_set.induct) auto

lemma keys_foldl_dict_set:
  "fst ` set (foldl (\<lambda>d (k, v). dict_set d k v) d items) = fst ` set d \<union> fst ` set items"
proof (induction items arbitrary: d)
  case Nil
  show ?case by simp
next
  case (Cons x xs)
  have "fst ` set (dict_set d (fst x) (snd x)) = insert (fst x) (fst ` set d)"
    by (rule keys_dict_set)
  then show ?case
    using Cons [of "dict_set d (fst x) (snd x)"] by (simp add: case_prod_beta)
qed

lemma keys_dict_of: "fst ` set (dict_of items) = fst ` set items"
  by (simp add: dict_of_def keys_foldl_dict_set)





lemma parquet_reader_lengths:
  "parquet_reader fs args = Inr out \<Longrightarrow> length (tbl out) = length (column_names (metadata out))"
  by (auto simp: parquet_reader_def split: option.splits sum.splits)

lemma from_table_has_column:
  assumes "n \<in> set names" and "length cols = length names"
  shows "\<exists>c. map_of (tbl_data (from_table names cols)) n = Some c"
proof -
  have "fst ` set (zip names cols) = set names"
    using assms(2) by (metis map_fst_zip set_map)
  then have "n \<in> fst ` set (dict_of (zip names cols))"
    using assms(1) by (simp add: keys_dict_of)
  then have "map_of (dict_of (zip names cols)) n \<noteq> None"
    by (simp add: map_of_eq_None_iff)
  then show ?thesis
    by (auto simp: from_table_def)
qed

lemma find_index_col_first:
  "ud ''pandas'' = Some meta \<Longrightarrow> index_columns meta = Some (d # ds) \<Longrightarrow> find_index_col ud = d"
  by (simp add: find_index_col_def)









subsection \<open>The examples, evaluated\<close>

lemma statistics_ROWGROUP: "statistics_freq_of ''ROWGROUP'' = Inr STATISTICS_ROWGROUP"
  by code_simp

lemma statistics_RowGroup: "statistics_freq_of ''RowGroup'' = Inr STATISTICS_ROWGROUP"
  by code_simp


lemma upper_COLUMN: "upper ''COLUMN'' = ''COLUMN''"
  by code_simp

lemmas example_defs =
  read_parquet_def read_parquet_setup_def to_size_type_def parquet_reader_def
  row_group_window_def row_window_def decode_column_def rows_of_groups_def
  rows_of_window_def from_table_def dict_of_def set_index_def find_index_col_def
  backwards_compatible_index_name_def is_generated_index_name_def
  write_parquet_def write_parquet_setup_def write_parquet_columns_def
  generate_pandas_metadata_def construct_metadata_def level_index_def
  is_categorical_dtype_def np_to_pa_dtype_def compression_type_of_def
  parquet_writer_def table_view_def data_view_def tbl_column_names_def
  col_a_def col_k_def col_cat_def engine_ok_def unicode_decimal_def continuation_def

lemma metadata_named:
  "generate_pandas_metadata table_named None = Inr \<lparr>index_columns = Some [ColumnName ''k'']\<rparr>"
  by (simp add: generate_pandas_metadata_def table_named_def col_a_def col_k_def
        is_categorical_dtype_def level_index_def construct_metadata_def)

lemma columns_named:
  "write_parquet_columns table_named None = Inr ([col_k, col_a], [''k'', ''a''])"
  by (simp add: write_parquet_columns_def table_named_def table_view_def tbl_column_names_def)

lemma setup_named_footer:
  "write_parquet_setup table_named ''out.parquet'' None None ''ROWGROUP'' footer
     = Inr (args_named footer)"
  by (simp add: example_defs table_named_def args_named_def statistics_ROWGROUP)

lemma prep_unset:
  "read_parquet_setup ''out.parquet'' None None None None None False True = Inr args_unset"
  by (simp add: read_parquet_setup_unset args_unset_def)

lemma reader_named:
  "parquet_reader [''out.parquet'' \<mapsto> file_named] args_unset =
     Inr \<lparr>tbl = [col_k, col_a],
          metadata = \<lparr>column_names = [''k'', ''a''], user_data = pq_user_data file_named\<rparr>\<rparr>"
  by (simp add: example_defs file_named_def args_unset_def)

lemma read_named:
  "read_parquet unicode_decimal [''out.parquet'' \<mapsto> file_named] ''out.parquet'' None None None None None False True
     = Inr table_named"
  by (simp add: example_defs file_named_def table_named_def)

lemma write_named:
  "write_parquet engine_ok Map.empty table_named ''out.parquet'' None None ''ROWGROUP'' None
     = (Inr None, [''out.parquet'' \<mapsto> file_named])"
  by (simp add: example_defs file_named_def table_named_def statistics_ROWGROUP numeral_2_eq_2)

lemma write_named_footer:
  "write_parquet engine_ok Map.empty table_named ''out.parquet'' None None ''ROWGROUP''
       (Some ''part0.parquet'')
     = (Inr (Some (Array2D blob_named)), [''out.parquet'' \<mapsto> file_named])"
  by (simp add: example_defs file_named_def table_named_def blob_named_def statistics_ROWGROUP
        numeral_2_eq_2)

text \<open>
  A table with a two-level \<^verbatim>\<open>MultiIndex\<close>: both levels are written, and the table read
  back has the first level as its index and the second as its first data column.
\<close>

lemma multiindex_second_level_data_column:
  "fst (write_parquet engine_ok Map.empty table_multi ''out.parquet'' None None ''ROWGROUP'' None)
     = Inr None
   \<and> read_parquet unicode_decimal
       (snd (write_parquet engine_ok Map.empty table_multi ''out.parquet'' None None
               ''ROWGROUP'' None))
       ''out.parquet'' None None None None None False True
     = Inr \<lparr>tbl_data = [(''k2'', col_a), (''a'', col_a)],
            tbl_index = GenericIndex (Some ''k1'') col_k\<rparr>
   \<and> index_names (tbl_index table_multi) = [Some ''k1'', Some ''k2'']
   \<and> tbl_column_names table_multi = [''a'']"
  by (simp add: example_defs table_multi_def statistics_ROWGROUP)

section \<open>Round trip (claim C1)\<close>




section \<open>The index of a table read (claim C2)\<close>

text \<open>
  Claim C2, as the code has it. When the pandas document of a file has a non-empty
  \<^verbatim>\<open>index_columns\<close> list, \<^verbatim>\<open>read_parquet\<close> looks at its first entry only. If the entry is
  a non-empty string that names a decoded column, that column is removed from the data
  columns and becomes the index (named by pyarrow's
  \<^verbatim>\<open>_backwards_compatible_index_name\<close>). If it is a non-empty string that names no
  decoded column, the table keeps its columns and its default index, and the index is
  given that string as its name if and only if \<^verbatim>\<open>use_pandas_metadata\<close> is set. If it is
  not a string (a range descriptor) or is the empty string, the table is returned with
  its default, unnamed index, whatever \<^verbatim>\<open>use_pandas_metadata\<close> is.
\<close>

theorem read_parquet_index_designation:
  assumes prep: "read_parquet_setup filepath columns_arg rg rgc skip num s2c upm = Inr args"
      and reader: "parquet_reader fs args = Inr out"
      and pandas: "user_data (metadata out) ''pandas'' = Some meta"
      and entries: "index_columns meta = Some (d # ds)"
  shows "\<exists>df. read_parquet decimal fs filepath columns_arg rg rgc skip num s2c upm = Inr df
           \<and> (case d of
                 ColumnName n \<Rightarrow>
                   (if n \<noteq> [] \<and> n \<in> set (column_names (metadata out))
                    then n \<notin> set (tbl_column_names df)
                       \<and> tbl_data df =
                           filter (\<lambda>kv. fst kv \<noteq> n)
                             (tbl_data (from_table (column_names (metadata out)) (tbl out)))
                       \<and> (\<exists>c. map_of (tbl_data (from_table (column_names (metadata out))
                                   (tbl out))) n = Some c
                              \<and> tbl_index df =
                                  GenericIndex
                                    (backwards_compatible_index_name decimal (Some n) (Some n)) c)
                    else tbl_data df =
                           tbl_data (from_table (column_names (metadata out)) (tbl out))
                       \<and> tbl_index df =
                           RangeIndex (if n \<noteq> [] \<and> upm then Some n else None) 0
                             (int (num_rows (tbl out))))
               | RangeDescr nm start stop step \<Rightarrow>
                   df = from_table (column_names (metadata out)) (tbl out))"
proof -
  let ?names = "column_names (metadata out)"
  let ?df = "from_table ?names (tbl out)"
  have first: "find_index_col (user_data (metadata out)) = d"
    using pandas entries by (rule find_index_col_first)
  show ?thesis
  proof (cases d)
    case (RangeDescr nm start stop step)
    then show ?thesis
      using prep reader first by (simp add: read_parquet_def Let_def)
  next
    case (ColumnName n)
    show ?thesis
    proof (cases "n \<noteq> [] \<and> n \<in> set ?names")
      case True
      have "length (tbl out) = length ?names"
        using reader by (rule parquet_reader_lengths)
      with True obtain c where c: "map_of (tbl_data ?df) n = Some c"
        using from_table_has_column by blast
      have "n \<notin> fst ` set (filter (\<lambda>kv. fst kv \<noteq> n) (tbl_data ?df))"
        by auto
      then show ?thesis
        using prep reader first ColumnName True c
        by (simp add: read_parquet_def set_index_def tbl_column_names_def Let_def)
    next
      case False
      then show ?thesis
        using prep reader first ColumnName
        by (auto simp: read_parquet_def from_table_def Let_def)
    qed
  qed
qed

text \<open>The theorem at a file whose first entry names the column \<^verbatim>\<open>k\<close>.\<close>

theorem read_parquet_index_designation_witness:
  "parquet_reader [''out.parquet'' \<mapsto> file_named] args_unset =
     Inr \<lparr>tbl = [col_k, col_a],
          metadata = \<lparr>column_names = [''k'', ''a''], user_data = pq_user_data file_named\<rparr>\<rparr>
   \<and> read_parquet unicode_decimal [''out.parquet'' \<mapsto> file_named] ''out.parquet'' None None None None None
        False True = Inr table_named"
proof -
  have pandas: "user_data (metadata \<lparr>tbl = [col_k, col_a],
          metadata = \<lparr>column_names = [''k'', ''a''], user_data = pq_user_data file_named\<rparr>\<rparr>)
        ''pandas'' = Some \<lparr>index_columns = Some [ColumnName ''k'']\<rparr>"
    by (simp add: file_named_def)
  have entries: "index_columns \<lparr>index_columns = Some [ColumnName ''k'']\<rparr>
      = Some (ColumnName ''k'' # [])"
    by simp
  obtain df where rd: "read_parquet unicode_decimal [''out.parquet'' \<mapsto> file_named] ''out.parquet''
        None None None None None False True = Inr df"
    and ix: "\<exists>c. map_of (tbl_data (from_table [''k'', ''a''] [col_k, col_a])) ''k'' = Some c
               \<and> tbl_index df =
                   GenericIndex (backwards_compatible_index_name unicode_decimal (Some ''k'') (Some ''k'')) c"
    and dt: "tbl_data df =
               filter (\<lambda>kv. fst kv \<noteq> ''k'') (tbl_data (from_table [''k'', ''a''] [col_k, col_a]))"
    using read_parquet_index_designation [where decimal = unicode_decimal,
            OF prep_unset reader_named pandas entries]
    by auto
  have "tbl_data df = tbl_data table_named"
    using dt by (simp add: from_table_def dict_of_def table_named_def)
  moreover have "tbl_index df = tbl_index table_named"
    using ix
    by (simp add: from_table_def dict_of_def table_named_def
          backwards_compatible_index_name_def is_generated_index_name_def)
  ultimately have "df = table_named"
    by simp
  with rd reader_named show ?thesis by simp
qed

text \<open>
  The claim as stated fails at a file whose first entry is the range descriptor named
  \<^verbatim>\<open>idx\<close>, read with \<^verbatim>\<open>use_pandas_metadata\<close> set: the index of the result has no name.
\<close>

theorem range_descriptor_label_counterexample:
  "read_parquet unicode_decimal [''in.parquet'' \<mapsto> file_range] ''in.parquet'' None None None None None
     False True
     = Inr \<lparr>tbl_data = [(''a'', col_a)], tbl_index = RangeIndex None 0 2\<rparr>
   \<and> index_name (RangeIndex None 0 2) \<noteq> Some ''idx''
   \<and> find_index_col (pq_user_data file_range) = RangeDescr (Some ''idx'') 0 2 1"
  by (simp add: example_defs file_range_def)

section \<open>Column names and view (claim C3)\<close>

text \<open>
  Claim C3. In a write call that embeds an index (the policy is not \<^verbatim>\<open>False\<close>, and the
  index is a \<^verbatim>\<open>MultiIndex\<close> or has a name) and reaches the encoder, with \<open>k\<close> the number
  of index levels: the first \<open>k\<close> columns of the view handed to the encoder are the index
  columns and the rest are the data columns in table order; the first \<open>k\<close> entries of
  \<^verbatim>\<open>column_names\<close> are the index names and the rest are the data column names; and
  there are as many names as columns.
\<close>

theorem column_names_follow_view:
  assumes "index_arg \<noteq> Some False"
      and "is_MultiIndex (tbl_index t) \<or> index_name (tbl_index t) \<noteq> None"
      and "write_parquet_setup t path index_arg compression_arg statistics_arg
             metadata_file_path = Inr args"
  shows "take (length (index_names (tbl_index t))) (w_table args) = level_columns (tbl_index t)
       \<and> drop (length (index_names (tbl_index t))) (w_table args) = data_view t
       \<and> map Some (take (length (index_names (tbl_index t))) (column_names (w_metadata args)))
           = index_names (tbl_index t)
       \<and> drop (length (index_names (tbl_index t))) (column_names (w_metadata args))
           = tbl_column_names t
       \<and> length (column_names (w_metadata args)) = length (w_table args)"
proof -
  let ?k = "length (index_names (tbl_index t))"
  let ?names = "column_names (w_metadata args)"
  have cols: "write_parquet_columns t index_arg = Inr (w_table args, ?names)"
    using assms(3) by (rule write_parquet_setup_columns)
  have tv: "w_table args = level_columns (tbl_index t) @ data_view t"
    and ns: "map Some ?names = index_names (tbl_index t) @ map Some (tbl_column_names t)"
    using write_parquet_columns_embedded [OF assms(1,2) cols] by simp_all
  have k: "length (level_columns (tbl_index t)) = ?k"
    by (rule length_level_columns)
  have "map Some (take ?k ?names) = take ?k (map Some ?names)"
    by (simp add: take_map)
  then have n1: "map Some (take ?k ?names) = index_names (tbl_index t)"
    by (simp add: ns)
  have "map Some (drop ?k ?names) = drop ?k (map Some ?names)"
    by (simp add: drop_map)
  then have "map Some (drop ?k ?names) = map Some (tbl_column_names t)"
    by (simp add: ns)
  then have n2: "drop ?k ?names = tbl_column_names t"
    by (simp add: inj_map_eq_map)
  have "length (map Some ?names) = ?k + length (tbl_data t)"
    unfolding ns by (simp add: tbl_column_names_def)
  then have len: "length ?names = length (w_table args)"
    by (simp add: tv k data_view_def)
  show ?thesis
    using n1 n2 len by (simp add: tv k)
qed

text \<open>The theorem at a table with the index \<^verbatim>\<open>k\<close> and the data column \<^verbatim>\<open>a\<close>.\<close>

theorem column_names_follow_view_witness:
  "write_parquet_setup table_named ''out.parquet'' None None ''ROWGROUP'' None
     = Inr (args_named None)
   \<and> take 1 (w_table (args_named None)) = [col_k]
   \<and> drop 1 (w_table (args_named None)) = [col_a]
   \<and> column_names (w_metadata (args_named None)) = [''k'', ''a'']
   \<and> index_names (tbl_index table_named) = [Some ''k'']
   \<and> tbl_column_names table_named = [''a'']"
  using column_names_follow_view [OF _ _ setup_named_footer [of None]] setup_named_footer [of None]
  by (simp add: table_named_def args_named_def tbl_column_names_def)

section \<open>Categorical columns (claim C4)\<close>

text \<open>
  Towards claim C4: whenever lines 231-248 succeed, the written names are distinct, and
  a column of the view handed on is of type \<^verbatim>\<open>CATEGORY\<close>, the write fails with the
  \<^verbatim>\<open>ValueError\<close> of \<^verbatim>\<open>generate_pandas_metadata\<close> and leaves the file system as it was.
\<close>

theorem category_rejected_before_write:
  assumes "write_parquet_columns t index_arg = Inr (tv, names)"
      and "c \<in> set tv" and "dtype c = CATEGORY"
      and "distinct names"
  shows "write_parquet env fs t path index_arg compression_arg statistics_arg metadata_file_path =
           (Inl (ValueError CategoryNotSupported), fs)"
  using generate_pandas_metadata_category [OF assms] assms(1)
  by (simp add: write_parquet_def write_parquet_setup_def)

text \<open>An instance: a table with a categorical data column and the default index.\<close>

lemma category_rejected_instance:
  "write_parquet engine_ok Map.empty table_cat ''out.parquet'' None None ''ROWGROUP'' None
     = (Inl (ValueError CategoryNotSupported), Map.empty)
   \<and> UnsupportedType (ValueError CategoryNotSupported)"
  using category_rejected_before_write [where t = table_cat and index_arg = None
          and tv = "[col_cat]" and names = "[''c'']" and c = col_cat and env = engine_ok
          and fs = Map.empty and path = "''out.parquet''" and compression_arg = None
          and statistics_arg = "''ROWGROUP''" and metadata_file_path = None]
  by (simp add: write_parquet_columns_def table_cat_def data_view_def tbl_column_names_def
        col_cat_def UnsupportedType_def)

text \<open>
  Claim C4 at the input where the code departs from it: a table with a \<^verbatim>\<open>CATEGORY\<close>
  data column and a \<^verbatim>\<open>MultiIndex\<close> with an unnamed level, written with the default
  index policy. Line 239 calls \<^verbatim>\<open>str.encode\<close> on the name \<^verbatim>\<open>None\<close>, so the call fails
  with a \<^verbatim>\<open>TypeError\<close> before \<^verbatim>\<open>generate_pandas_metadata\<close> is reached; nothing is
  written.
\<close>

theorem category_unnamed_level_type_error:
  "write_parquet engine_ok Map.empty table_multi_unnamed ''out.parquet'' None None ''ROWGROUP'' None
     = (Inl TypeError, Map.empty)
   \<and> \<not> UnsupportedType TypeError
   \<and> list_ex (\<lambda>c. dtype c = CATEGORY) (data_view table_multi_unnamed)"
  by (simp add: example_defs table_multi_unnamed_def UnsupportedType_def)

section \<open>Compression (claim C5)\<close>

text \<open>
  Claim C5, as the code has it. A compression value other than \<^verbatim>\<open>None\<close> and
  \<^verbatim>\<open>"snappy"\<close> makes every write fail and leaves the file system as it was. The options
  are checked after the column names and the pandas metadata have been built: when
  those two steps succeed the error is the \<^verbatim>\<open>ValueError\<close> for the compression type, an
  \<open>UnsupportedOption\<close>; otherwise the error of the earlier step is the one raised.
\<close>

theorem unsupported_compression_fails:
  assumes "compression_arg \<noteq> None" and "compression_arg \<noteq> Some ''snappy''"
  shows "\<exists>e. write_parquet env fs t path index_arg compression_arg statistics_arg
                metadata_file_path = (Inl e, fs)
           \<and> ((\<exists>v. write_parquet_columns t index_arg = Inr v)
                \<and> (\<exists>p. generate_pandas_metadata t index_arg = Inr p)
              \<longrightarrow> e = ValueError UnsupportedCompressionType \<and> UnsupportedOption e)"
  using assms
  by (auto simp: write_parquet_def write_parquet_setup_def compression_type_of_def
        UnsupportedOption_def split: sum.splits)

text \<open>The theorem at \<^verbatim>\<open>"gzip"\<close> on a table without categorical columns.\<close>

theorem unsupported_compression_fails_witness:
  "write_parquet engine_ok Map.empty table_named ''out.parquet'' None (Some ''gzip'') ''ROWGROUP'' None
     = (Inl (ValueError UnsupportedCompressionType), Map.empty)
   \<and> UnsupportedOption (ValueError UnsupportedCompressionType)"
  using unsupported_compression_fails [where compression_arg = "Some ''gzip''"
          and env = engine_ok and fs = Map.empty and t = table_named
          and path = "''out.parquet''" and index_arg = None
          and statistics_arg = "''ROWGROUP''" and metadata_file_path = None]
  by (auto simp: columns_named metadata_named)

text \<open>
  The claim as stated fails at \<^verbatim>\<open>"gzip"\<close> on a table with a \<^verbatim>\<open>CATEGORY\<close> column: the
  error raised is the one for the column type, not an \<open>UnsupportedOption\<close>.
\<close>

theorem unsupported_compression_counterexample:
  "write_parquet engine_ok Map.empty table_cat ''out.parquet'' None (Some ''gzip'') ''ROWGROUP'' None
     = (Inl (ValueError CategoryNotSupported), Map.empty)
   \<and> \<not> UnsupportedOption (ValueError CategoryNotSupported)"
  by (simp add: example_defs table_cat_def UnsupportedOption_def)

section \<open>Statistics level (claim C6)\<close>

text \<open>
  Claim C6, as the code has it. The statistics level is accepted exactly when its upper
  case is \<^verbatim>\<open>NONE\<close>, \<^verbatim>\<open>ROWGROUP\<close> or \<^verbatim>\<open>PAGE\<close>. Any other value makes every write fail
  and leaves the file system as it was. When the column names and the pandas metadata
  have been built the error is an \<open>UnsupportedOption\<close>, and it is the \<^verbatim>\<open>ValueError\<close> for
  the statistics level when the compression value is a supported one; otherwise the
  error of the earlier step is the one raised.
\<close>

theorem unsupported_statistics_fails:
  "((\<exists>lvl. statistics_freq_of statistics_arg = Inr lvl)
      = (upper statistics_arg \<in> {''NONE'', ''ROWGROUP'', ''PAGE''}))
   \<and> (upper statistics_arg \<notin> {''NONE'', ''ROWGROUP'', ''PAGE''} \<longrightarrow>
        (\<exists>e. write_parquet env fs t path index_arg compression_arg statistics_arg
                metadata_file_path = (Inl e, fs)
           \<and> ((\<exists>v. write_parquet_columns t index_arg = Inr v)
                \<and> (\<exists>p. generate_pandas_metadata t index_arg = Inr p)
              \<longrightarrow> UnsupportedOption e
                \<and> (compression_arg = None \<or> compression_arg = Some ''snappy''
                     \<longrightarrow> e = ValueError UnsupportedStatisticsFreq))))"
proof -
  have accept: "(\<exists>lvl. statistics_freq_of statistics_arg = Inr lvl)
      = (upper statistics_arg \<in> {''NONE'', ''ROWGROUP'', ''PAGE''})"
    by (auto simp: statistics_freq_of_def Let_def)
  have reject: "statistics_freq_of statistics_arg = Inl (ValueError UnsupportedStatisticsFreq)"
    if "upper statistics_arg \<notin> {''NONE'', ''ROWGROUP'', ''PAGE''}"
    using that by (simp add: statistics_freq_of_def Let_def)
  show ?thesis
    using accept reject
    by (auto simp: write_parquet_def write_parquet_setup_def compression_type_of_def
          UnsupportedOption_def split: sum.splits)
qed

text \<open>
  The theorem at \<^verbatim>\<open>"COLUMN"\<close> on a table without categorical columns; \<^verbatim>\<open>"RowGroup"\<close>
  is accepted.
\<close>

theorem unsupported_statistics_fails_witness:
  "write_parquet engine_ok Map.empty table_named ''out.parquet'' None None ''COLUMN'' None
     = (Inl (ValueError UnsupportedStatisticsFreq), Map.empty)
   \<and> UnsupportedOption (ValueError UnsupportedStatisticsFreq)
   \<and> statistics_freq_of ''RowGroup'' = Inr STATISTICS_ROWGROUP"
  using unsupported_statistics_fails [where statistics_arg = "''COLUMN''"
          and env = engine_ok and fs = Map.empty and t = table_named
          and path = "''out.parquet''" and index_arg = None and compression_arg = None
          and metadata_file_path = None]
  by (auto simp: columns_named metadata_named upper_COLUMN statistics_RowGroup)

text \<open>
  The claim as stated fails at \<^verbatim>\<open>"COLUMN"\<close> on a table with a \<^verbatim>\<open>CATEGORY\<close> column: the
  error raised is the one for the column type, not an \<open>UnsupportedOption\<close>.
\<close>

theorem unsupported_statistics_counterexample:
  "write_parquet engine_ok Map.empty table_cat ''out.parquet'' None None ''COLUMN'' None
     = (Inl (ValueError CategoryNotSupported), Map.empty)
   \<and> \<not> UnsupportedOption (ValueError CategoryNotSupported)"
  by (simp add: example_defs table_cat_def UnsupportedOption_def)

section \<open>Defaults of the selection options (claim C7)\<close>

text \<open>
  Claim C7. In the arguments \<^verbatim>\<open>read_parquet\<close> hands to the native reader, an unset
  \<^verbatim>\<open>skip_rows\<close> is \<open>0\<close>, and an unset \<^verbatim>\<open>num_rows\<close>, \<^verbatim>\<open>row_group\<close> or
  \<^verbatim>\<open>row_group_count\<close> is \<open>-1\<close>.
\<close>

theorem read_parquet_setup_defaults:
  assumes "read_parquet_setup filepath columns_arg rg rgc skip num s2c upm = Inr args"
  shows "(skip = None \<longrightarrow> sint (r_skip_rows args) = 0)
       \<and> (num = None \<longrightarrow> sint (r_num_rows args) = - 1)
       \<and> (rg = None \<longrightarrow> sint (r_row_group args) = - 1)
       \<and> (rgc = None \<longrightarrow> sint (r_row_group_count args) = - 1)"
  using assms
  by (auto simp: read_parquet_setup_def split: sum.splits dest: to_size_type_Inr)

text \<open>The theorem with all four options unset.\<close>

theorem read_parquet_setup_defaults_witness:
  "read_parquet_setup ''out.parquet'' None None None None None False True = Inr args_unset
   \<and> sint (r_skip_rows args_unset) = 0
   \<and> sint (r_num_rows args_unset) = - 1
   \<and> sint (r_row_group args_unset) = - 1
   \<and> sint (r_row_group_count args_unset) = - 1"
  using read_parquet_setup_defaults [OF prep_unset] prep_unset
  by simp

section \<open>The footer blob (claim C8)\<close>

text \<open>
  Claim C8, as the code has it. A write call returns normally exactly when lines 226-289
  give the arguments of the native writer and the native writer succeeds on them. The
  result is then what the native writer produced, as an array: \<^verbatim>\<open>None\<close> when no footer
  path was given, and when the footer path \<open>p\<close> was given the serialized footer of this
  write, which has the schema of the columns written and one row group, of the row
  count of the table, with \<open>p\<close> as its file path. So among the calls that return, a blob
  is returned if and only if a footer path was given. A call that fails returns no blob,
  with a footer path or without. The native writer is modelled from the spec.
\<close>

theorem footer_blob_iff_path:
  "(write_parquet env fs t path index_arg compression_arg statistics_arg metadata_file_path
      = (Inr r, fs'))
   = (\<exists>args out.
        write_parquet_setup t path index_arg compression_arg statistics_arg metadata_file_path
          = Inr args
      \<and> parquet_writer env fs args = (Inr out, fs')
      \<and> r = map_option Array2D out
      \<and> (r = None) = (metadata_file_path = None)
      \<and> (\<forall>p. metadata_file_path = Some p \<longrightarrow>
            r = Some (Array2D
                  \<lparr>fm_schema = zip (column_names (w_metadata args)) (map dtype (w_table args)),
                   fm_row_groups = [\<lparr>rg_file_path = p,
                                     rg_num_rows = num_rows (w_table args)\<rparr>]\<rparr>)))"
proof (cases "write_parquet_setup t path index_arg compression_arg statistics_arg
                metadata_file_path")
  case (Inl e)
  then show ?thesis
    by (simp add: write_parquet_setup_failed)
next
  case (Inr args)
  have flag: "w_return_filemetadata args = (metadata_file_path \<noteq> None)"
    using write_parquet_setup_flag [OF Inr] by simp
  have path: "metadata_file_path = Some p \<Longrightarrow> w_metadata_out_file_path args = p" for p
    using Inr by (rule write_parquet_setup_footer_path)
  obtain res fs1 where w: "parquet_writer env fs args = (res, fs1)"
    by (cases "parquet_writer env fs args")
  show ?thesis
  proof (cases res)
    case (Inl e)
    then show ?thesis
      using Inr w write_parquet_native [OF Inr, of env fs] by simp
  next
    case out: (Inr out)
    have shape: "out = (if metadata_file_path \<noteq> None
                   then Some \<lparr>fm_schema = zip (column_names (w_metadata args))
                                              (map dtype (w_table args)),
                              fm_row_groups = [\<lparr>rg_file_path = w_metadata_out_file_path args,
                                                rg_num_rows = num_rows (w_table args)\<rparr>]\<rparr>
                   else None)"
      using w out flag
      by (auto simp: parquet_writer_def split: if_splits option.splits)
    have "write_parquet env fs t path index_arg compression_arg statistics_arg
            metadata_file_path = (Inr (map_option Array2D out), fs1)"
      using w out write_parquet_native [OF Inr, of env fs] by simp
    then show ?thesis
      using Inr w out shape path by (cases metadata_file_path) auto
  qed
qed

text \<open>The theorem on one table, written with a footer path and without.\<close>

theorem footer_blob_iff_path_witness:
  "write_parquet engine_ok Map.empty table_named ''out.parquet'' None None ''ROWGROUP''
       (Some ''part0.parquet'')
     = (Inr (Some (Array2D blob_named)), [''out.parquet'' \<mapsto> file_named])
   \<and> parquet_writer engine_ok Map.empty (args_named (Some ''part0.parquet''))
     = (Inr (Some blob_named), [''out.parquet'' \<mapsto> file_named])
   \<and> write_parquet engine_ok Map.empty table_named ''out.parquet'' None None ''ROWGROUP'' None
     = (Inr None, [''out.parquet'' \<mapsto> file_named])
   \<and> parquet_writer engine_ok Map.empty (args_named None)
     = (Inr None, [''out.parquet'' \<mapsto> file_named])"
  using footer_blob_iff_path [of engine_ok Map.empty table_named "''out.parquet''" None None
          "''ROWGROUP''" "Some ''part0.parquet''" "Some (Array2D blob_named)"
          "[''out.parquet'' \<mapsto> file_named]"]
    footer_blob_iff_path [of engine_ok Map.empty table_named "''out.parquet''" None None
          "''ROWGROUP''" None None "[''out.parquet'' \<mapsto> file_named]"]
    setup_named_footer [of "Some ''part0.parquet''"] setup_named_footer [of None]
    write_named_footer write_named
  by (auto simp: Some_eq_map_option)

text \<open>
  The claim as stated fails on a call that is given a footer path and fails: a table with
  a \<^verbatim>\<open>CATEGORY\<close> column, written with a footer path, gives the error and no blob, and the
  sink is not touched.
\<close>

theorem footer_path_without_blob_counterexample:
  "write_parquet engine_ok Map.empty table_cat ''out.parquet'' None None ''ROWGROUP''
       (Some ''part0.parquet'')
     = (Inl (ValueError CategoryNotSupported), Map.empty)"
  by (simp add: example_defs table_cat_def)

section \<open>Merging footers (claim C9)\<close>

text \<open>
  Claim C9 on the code. The blob that \<^verbatim>\<open>write_parquet\<close> returns is an array of shape
  \<open>(1, n)\<close> (lines 58-59 and 70), and so is the one that \<^verbatim>\<open>merge_filemetadata\<close> returns,
  while line 315 converts each blob of the list as a flat sequence of bytes. On the
  footer of a write and another footer of the same schema \<^verbatim>\<open>merge_filemetadata\<close> raises a
  \<^verbatim>\<open>TypeError\<close>, before the native merge is called, where the claim has the footer with
  the row groups of both in list order; it raises on a single such footer too. On the
  same two footers as flat byte sequences it gives the footer that the claim describes.
\<close>

theorem merge_written_blobs_type_error:
  "fst (write_parquet engine_ok Map.empty table_named ''out.parquet'' None None ''ROWGROUP''
          (Some ''part0.parquet'')) = Inr (Some (Array2D blob_named))
   \<and> fm_schema blob_other = fm_schema blob_named
   \<and> merge_filemetadata [Array2D blob_named, Array2D blob_other] = Inl TypeError
   \<and> merge_filemetadata [Array2D blob_named] = Inl TypeError
   \<and> merge_filemetadata [Flat blob_named, Flat blob_other] =
       Inr (Array2D
         \<lparr>fm_schema = [(''k'', STRING), (''a'', INT32)],
          fm_row_groups = [\<lparr>rg_file_path = ''part0.parquet'', rg_num_rows = 2\<rparr>,
                           \<lparr>rg_file_path = ''part1.parquet'', rg_num_rows = 5\<rparr>]\<rparr>)"
  using write_named_footer
  by (simp add: merge_filemetadata_def blob_named_def blob_other_def)

section \<open>An index without a name (claim C10)\<close>

text \<open>
  Claim C10. When the index policy is not \<^verbatim>\<open>False\<close> and the table has a single-level
  index whose name is \<^verbatim>\<open>None\<close>, lines 231-248 give the data view and the data column
  names only: the view handed to the encoder has no index column, and
  \<^verbatim>\<open>column_names\<close> has no index name.
\<close>

theorem unnamed_index_writes_data_only:
  assumes "index_arg \<noteq> Some False"
      and "\<not> is_MultiIndex (tbl_index t)"
      and "index_name (tbl_index t) = None"
  shows "write_parquet_columns t index_arg = Inr (data_view t, tbl_column_names t)
       \<and> (\<forall>args. write_parquet_setup t path index_arg compression_arg statistics_arg
                  metadata_file_path = Inr args
             \<longrightarrow> w_table args = data_view t
               \<and> column_names (w_metadata args) = tbl_column_names t)"
proof -
  have cols: "write_parquet_columns t index_arg = Inr (data_view t, tbl_column_names t)"
    using assms by (cases "tbl_index t") (simp_all add: write_parquet_columns_def)
  show ?thesis
    using cols by (auto dest: write_parquet_setup_columns)
qed

text \<open>The theorem at a table whose index has no name.\<close>

theorem unnamed_index_writes_data_only_witness:
  "write_parquet_columns table_unnamed None = Inr ([col_a], [''a''])
   \<and> data_view table_unnamed = [col_a]
   \<and> index_name (tbl_index table_unnamed) = None"
  using unnamed_index_writes_data_only [of None table_unnamed]
  by (simp add: table_unnamed_def data_view_def tbl_column_names_def)

end
